theory Spec2Isabelle
  imports Main "HOL-Library.Word"
begin

unbundle bit_operations_syntax

section \<open>The LoRa E32 controller and the broadcast drain\<close>

text \<open>
  A shallow embedding of \<^verbatim>\<open>src/lib/modules/lora/index.ts\<close> (class \<^verbatim>\<open>LoRaE32\<close>) and of the
  broadcast module (classes \<^verbatim>\<open>Broadcast\<close> and \<^verbatim>\<open>Drain\<close>).

  An object is a record of its fields. Everything a method does to the outside world
  (GPIO writes, transport writes, emitted events, calls into the data-link layer) is
  appended, in program order, to the \<open>trace\<close> of the record. The bytes the serial
  transport will deliver are the list \<open>rx\<close> of chunks, one chunk per \<^verbatim>\<open>'data'\<close>
  notification. An \<^verbatim>\<open>async\<close> method ends in one of three ways: its promise resolves,
  it rejects with an exception, or it stays pending for ever.
\<close>

subsection \<open>Data\<close>

type_synonym byte = "8 word"

text \<open>The enum \<^verbatim>\<open>Mode\<close> and the pin levels \<^verbatim>\<open>LOW\<close> (0) and \<^verbatim>\<open>HIGH\<close> (1).\<close>

datatype Mode = NORMAL | WAKE_UP | POWER_SAVING | SLEEP

datatype level = LOW | HIGH

fun level_bit :: "level \<Rightarrow> nat" where
  "level_bit LOW = 0"
| "level_bit HIGH = 1"

text \<open>
  The exceptions of the program: \<^verbatim>\<open>Error('Module is not setup yet!')\<close> is \<open>NotReady\<close>,
  \<^verbatim>\<open>IllegalOperationError\<close> keeps its name, the \<^verbatim>\<open>TypeError\<close> of \<^verbatim>\<open>readVersion\<close> is
  \<open>WrongLength\<close>, \<open>RangeError\<close> is what \<^verbatim>\<open>TypedArray.prototype.set\<close> throws when the
  source does not fit behind the offset, and \<open>BadHeader\<close> and \<open>Malformed\<close> are the
  failures of the codec.
\<close>

datatype error =
  NotReady | IllegalOperationError | WrongLength | BadHeader | Malformed | RangeError

datatype 'a outcome = Pending | Thrown error | Returned 'a

text \<open>
  The value of a field that may never have been assigned: \<^verbatim>\<open>undefined\<close> or a boolean,
  with the loose equality \<^verbatim>\<open>==\<close> of the language on these values (\<^verbatim>\<open>undefined\<close> is
  loosely equal to \<^verbatim>\<open>undefined\<close> and \<^verbatim>\<open>null\<close> only).
\<close>

datatype jsval = JUndefined | JBool bool

fun loose_eq :: "jsval \<Rightarrow> jsval \<Rightarrow> bool" where
  "loose_eq JUndefined JUndefined = True"
| "loose_eq (JBool a) (JBool b) = (a = b)"
| "loose_eq JUndefined (JBool b) = False"
| "loose_eq (JBool a) JUndefined = False"

text \<open>
  The fields of a \<^verbatim>\<open>Config\<close> that \<^verbatim>\<open>setConfig\<close> reads. They are numbers; the bit-packed
  ones hold their bits in place, since \<^verbatim>\<open>setConfig\<close> joins them with \<^verbatim>\<open>|\<close> and no shift.
\<close>

record Config =
  header :: int
  highAddress :: int
  lowAddress :: int
  airRate :: int
  baudRate :: int
  parityBit :: int
  channel :: int
  FEC :: int
  driveMode :: int
  transmissionMode :: int
  transmissionPower :: int
  wakeUpTime :: int

text \<open>The object literal that \<^verbatim>\<open>readVersion\<close> returns.\<close>

record Version =
  ver_header :: byte
  ver_model :: byte
  ver_version :: byte
  ver_features :: byte

datatype pin = M0 | M1 | AUX

datatype pinmode = OUTPUT | INPUT_PULLUP

datatype event =
  ModeEvent Mode
| MessageEvent "byte list"
| ErrorEvent error
| DroppedEvent error

datatype effect =
  PinMode pin pinmode
| PinWrite pin level
| UartWrite "byte list"
| Emit event
| Wait nat
| LinkSend "byte list"
| LinkWrite "byte list"
| ClearWatch nat
| AddListener string

record LoRaE32 =
  mode :: Mode
  auxWatcherId :: "nat option"
  config :: "Config option"
  version :: "Version option"
  isSetup :: jsval
  aux :: level
  rx :: "byte list list"
  trace :: "effect list"

subsection \<open>The receive primitive\<close>

text \<open>
  \<^verbatim>\<open>receive(packetLength)\<close> allocates a zeroed buffer of \<^verbatim>\<open>packetLength\<close> bytes, starts a
  cursor at 0 and attaches \<open>handler\<close> to the transport's \<^verbatim>\<open>'data'\<close> event. The record
  below is the closure of that handler: \<open>listening\<close> says whether it is still attached,
  \<open>resolved\<close> holds the value the promise was resolved with.
\<close>

record receiver =
  buf :: "byte list"
  cursor :: nat
  listening :: bool
  resolved :: "byte list option"

definition receive_new :: "nat \<Rightarrow> receiver" where
  "receive_new packetLength =
     \<lparr>buf = replicate packetLength 0, cursor = 0, listening = True, resolved = None\<rparr>"

text \<open>
  \<^verbatim>\<open>buf.set(data, cursor)\<close>: a \<^verbatim>\<open>RangeError\<close> when the data does not fit behind the
  offset, else the bytes are copied there.
\<close>

definition typed_set :: "byte list \<Rightarrow> byte list \<Rightarrow> nat \<Rightarrow> error + byte list" where
  "typed_set b data off =
     (if off + length data > length b then Inl RangeError
      else Inr (take off b @ data @ drop (off + length data) b))"

text \<open>
  One call of the handler. A throw leaves the closure as it was: the exception goes to
  the emitter of the event, not to the promise.
\<close>

definition handler :: "nat \<Rightarrow> byte list \<Rightarrow> receiver \<Rightarrow> error + receiver" where
  "handler packetLength data r =
     (case typed_set (buf r) data (cursor r) of
        Inl e \<Rightarrow> Inl e
      | Inr b \<Rightarrow>
          (let c = cursor r + length data in
           if c \<ge> packetLength
           then Inr (r\<lparr>buf := b, cursor := c, listening := False, resolved := Some b\<rparr>)
           else Inr (r\<lparr>buf := b, cursor := c\<rparr>)))"

text \<open>One \<^verbatim>\<open>'data'\<close> notification of the transport: only an attached handler runs.\<close>

definition on_data :: "nat \<Rightarrow> byte list \<Rightarrow> receiver \<Rightarrow> receiver" where
  "on_data packetLength data r =
     (if listening r
      then (case handler packetLength data r of Inl e \<Rightarrow> r | Inr r' \<Rightarrow> r')
      else r)"

text \<open>The closure after a sequence of notifications.\<close>

fun deliver :: "nat \<Rightarrow> byte list list \<Rightarrow> receiver \<Rightarrow> receiver" where
  "deliver n [] r = r"
| "deliver n (c # cs) r = deliver n cs (on_data n c r)"

text \<open>
  Awaiting the promise: the notifications are consumed up to the one that resolves it;
  the chunks after that one are left for whoever listens next.
\<close>

fun await :: "nat \<Rightarrow> receiver \<Rightarrow> byte list list \<Rightarrow> receiver \<times> byte list list" where
  "await n r [] = (r, [])"
| "await n r (c # cs) =
     (let r' = on_data n c r in
      if resolved r' \<noteq> None then (r', cs) else await n r' cs)"

definition receive :: "nat \<Rightarrow> LoRaE32 \<Rightarrow> byte list option \<times> LoRaE32" where
  "receive packetLength s =
     (let (r, rest) = await packetLength (receive_new packetLength) (rx s)
      in (resolved r, s\<lparr>rx := rest\<rparr>))"

subsection \<open>The controller\<close>

text \<open>
  The constructor: the recorded mode starts as \<^verbatim>\<open>Mode.SLEEP\<close>, \<^verbatim>\<open>config\<close> and
  \<^verbatim>\<open>version\<close> as \<^verbatim>\<open>null\<close>; \<^verbatim>\<open>isSetup\<close> is declared with the type \<^verbatim>\<open>false\<close> and no
  initialiser, so that it holds \<^verbatim>\<open>undefined\<close>; the three pins get their directions. The
  level on the input pin and the chunks the transport will deliver are the environment.
\<close>

definition LoRaE32_new :: "level \<Rightarrow> byte list list \<Rightarrow> LoRaE32" where
  "LoRaE32_new a chunks =
     \<lparr>mode = SLEEP, auxWatcherId = None, config = None, version = None,
      isSetup = JUndefined, aux = a, rx = chunks,
      trace = [PinMode M0 OUTPUT, PinMode M1 OUTPUT, PinMode AUX INPUT_PULLUP]\<rparr>"

definition effect :: "effect \<Rightarrow> LoRaE32 \<Rightarrow> LoRaE32" where
  "effect e s = s\<lparr>trace := trace s @ [e]\<rparr>"

definition digitalWrite :: "pin \<Rightarrow> level \<Rightarrow> LoRaE32 \<Rightarrow> LoRaE32" where
  "digitalWrite p l s = effect (PinWrite p l) s"

definition emit :: "event \<Rightarrow> LoRaE32 \<Rightarrow> LoRaE32" where
  "emit ev s = effect (Emit ev) s"

definition uart_write :: "byte list \<Rightarrow> LoRaE32 \<Rightarrow> LoRaE32" where
  "uart_write bs s = effect (UartWrite bs) s"

text \<open>The three listeners the constructor puts on the data-link layer.\<close>

definition on_link_message :: "byte list \<Rightarrow> LoRaE32 \<Rightarrow> LoRaE32" where
  "on_link_message data s = emit (MessageEvent data) s"

definition on_link_error :: "error \<Rightarrow> LoRaE32 \<Rightarrow> LoRaE32" where
  "on_link_error e s = emit (ErrorEvent e) s"

definition on_link_dropped :: "error \<Rightarrow> LoRaE32 \<Rightarrow> LoRaE32" where
  "on_link_dropped e s = emit (DroppedEvent e) s"

definition ready :: "LoRaE32 \<Rightarrow> level" where
  "ready s = aux s"

text \<open>The table of \<^verbatim>\<open>setMode\<close>: the levels for the pins \<^verbatim>\<open>m0\<close> and \<^verbatim>\<open>m1\<close>.\<close>

fun mode_levels :: "Mode \<Rightarrow> level \<times> level" where
  "mode_levels NORMAL = (LOW, LOW)"
| "mode_levels WAKE_UP = (HIGH, LOW)"
| "mode_levels POWER_SAVING = (LOW, HIGH)"
| "mode_levels SLEEP = (HIGH, HIGH)"

text \<open>
  \<^verbatim>\<open>setMode\<close>, statement by statement: the two pin writes, the assignment to \<^verbatim>\<open>this.mode\<close>,
  the \<^verbatim>\<open>'mode'\<close> event. It has no \<^verbatim>\<open>throw\<close> and awaits nothing.
\<close>

definition setMode_pins :: "Mode \<Rightarrow> LoRaE32 \<Rightarrow> LoRaE32" where
  "setMode_pins md s =
     (let m = mode_levels md in digitalWrite M1 (snd m) (digitalWrite M0 (fst m) s))"

definition setMode :: "Mode \<Rightarrow> LoRaE32 \<Rightarrow> LoRaE32" where
  "setMode md s = emit (ModeEvent md) ((setMode_pins md s)\<lparr>mode := md\<rparr>)"

definition assertReady :: "LoRaE32 \<Rightarrow> error option" where
  "assertReady s = (if loose_eq (isSetup s) (JBool False) then Some NotReady else None)"

definition assertSleepMode :: "LoRaE32 \<Rightarrow> error option" where
  "assertSleepMode s = (if mode s \<noteq> SLEEP then Some IllegalOperationError else None)"

definition waitQueue :: "LoRaE32 \<Rightarrow> unit outcome \<times> LoRaE32" where
  "waitQueue s = (Returned (), s)"

definition PACKET_GET_CONFIG :: "byte list" where
  "PACKET_GET_CONFIG = [0xC1, 0xC1, 0xC1]"

text \<open>
  \<^verbatim>\<open>readParameters\<close>. The class \<^verbatim>\<open>Config\<close> lives in \<^verbatim>\<open>constant.js\<close>, which is not among the
  sources: its static \<^verbatim>\<open>from\<close> and its method \<^verbatim>\<open>assert\<close> are the parameters \<open>cfrom\<close> and
  \<open>cassert\<close>.
\<close>

definition readParameters ::
  "(byte list \<Rightarrow> error + Config) \<Rightarrow> (Config \<Rightarrow> error + Config) \<Rightarrow> LoRaE32 \<Rightarrow>
   Config outcome \<times> LoRaE32" where
  "readParameters cfrom cassert s =
     (case assertSleepMode s of
        Some e \<Rightarrow> (Thrown e, s)
      | None \<Rightarrow>
          (case receive 6 (uart_write PACKET_GET_CONFIG s) of
             (None, s') \<Rightarrow> (Pending, s')
           | (Some result, s') \<Rightarrow>
               (case cfrom result of
                  Inl e \<Rightarrow> (Thrown e, s')
                | Inr c \<Rightarrow>
                    (case cassert c of
                       Inl e \<Rightarrow> (Thrown e, s')
                     | Inr c' \<Rightarrow> (Returned c', s')))))"

text \<open>
  \<^verbatim>\<open>Object.assign(new Config(), this.config)\<close>: a \<^verbatim>\<open>null\<close> source is skipped, else every
  field of the source overwrites the fresh object's. \<open>cnew\<close> is \<^verbatim>\<open>new Config()\<close>.
\<close>

definition getConfig :: "Config \<Rightarrow> LoRaE32 \<Rightarrow> error + Config" where
  "getConfig cnew s =
     (case assertReady s of
        Some e \<Rightarrow> Inl e
      | None \<Rightarrow> Inr (case config s of None \<Rightarrow> cnew | Some c \<Rightarrow> c))"

text \<open>\<^verbatim>\<open>new Address(this.config!)\<close>: the constructor of \<^verbatim>\<open>packet.js\<close> is the parameter.\<close>

definition getAddress :: "(Config option \<Rightarrow> 'a) \<Rightarrow> LoRaE32 \<Rightarrow> error + 'a" where
  "getAddress mk s =
     (case assertReady s of Some e \<Rightarrow> Inl e | None \<Rightarrow> Inr (mk (config s)))"

text \<open>
  The operator \<^verbatim>\<open>|\<close> works on 32-bit signed integers; an element of a \<^verbatim>\<open>Uint8Array\<close>
  keeps the low eight bits of the number stored in it.
\<close>

definition js_or :: "int \<Rightarrow> int \<Rightarrow> int" where
  "js_or a b = sint ((word_of_int a :: 32 word) OR word_of_int b)"

definition to_uint8 :: "int \<Rightarrow> byte" where
  "to_uint8 x = word_of_int x"

text \<open>The array \<^verbatim>\<open>data\<close> of \<^verbatim>\<open>setConfig\<close>.\<close>

definition setConfig_data :: "Config \<Rightarrow> byte list" where
  "setConfig_data c =
     [to_uint8 (header c),
      to_uint8 (highAddress c),
      to_uint8 (lowAddress c),
      to_uint8 (js_or (js_or (airRate c) (baudRate c)) (parityBit c)),
      to_uint8 (channel c),
      to_uint8 (js_or (js_or (js_or (js_or (FEC c) (driveMode c)) (transmissionMode c))
                  (transmissionPower c)) (wakeUpTime c))]"

definition setConfig ::
  "(byte list \<Rightarrow> error + Config) \<Rightarrow> Config \<Rightarrow> LoRaE32 \<Rightarrow> unit outcome \<times> LoRaE32" where
  "setConfig cfrom c s =
     (case assertSleepMode s of
        Some e \<Rightarrow> (Thrown e, s)
      | None \<Rightarrow>
          (case receive 6 (uart_write (setConfig_data c) s) of
             (None, s') \<Rightarrow> (Pending, s')
           | (Some echo, s') \<Rightarrow>
               (case cfrom echo of
                  Inl e \<Rightarrow> (Thrown e, s')
                | Inr c' \<Rightarrow> (Returned (), s'\<lparr>config := Some c'\<rparr>))))"

definition resetConfig ::
  "(byte list \<Rightarrow> error + Config) \<Rightarrow> (Config \<Rightarrow> error + Config) \<Rightarrow> LoRaE32 \<Rightarrow>
   unit outcome \<times> LoRaE32" where
  "resetConfig cfrom cassert s =
     (case assertSleepMode s of
        Some e \<Rightarrow> (Thrown e, s)
      | None \<Rightarrow>
          (case readParameters cfrom cassert
                  (effect (Wait 50) (uart_write [0xC4, 0xC4, 0xC4] s)) of
             (Pending, s') \<Rightarrow> (Pending, s')
           | (Thrown e, s') \<Rightarrow> (Thrown e, s')
           | (Returned c, s') \<Rightarrow> (Returned (), s'\<lparr>config := Some c\<rparr>)))"

text \<open>
  The part of \<^verbatim>\<open>readVersion\<close> after the \<^verbatim>\<open>await\<close>: the length test and the
  destructuring of the four bytes.
\<close>

definition version_of :: "byte list \<Rightarrow> error + Version" where
  "version_of result =
     (if length result \<noteq> 4 then Inl WrongLength
      else Inr \<lparr>ver_header = result ! 0, ver_model = result ! 1,
                ver_version = result ! 2, ver_features = result ! 3\<rparr>)"

definition readVersion :: "LoRaE32 \<Rightarrow> Version outcome \<times> LoRaE32" where
  "readVersion s =
     (case assertSleepMode s of
        Some e \<Rightarrow> (Thrown e, s)
      | None \<Rightarrow>
          (case receive 4 (uart_write [0xC3, 0xC3, 0xC3] s) of
             (None, s') \<Rightarrow> (Pending, s')
           | (Some result, s') \<Rightarrow>
               (case version_of result of
                  Inl e \<Rightarrow> (Thrown e, s')
                | Inr v \<Rightarrow> (Returned v, s'))))"

text \<open>\<^verbatim>\<open>setup\<close> (here \<open>setup_lora\<close>) assigns \<^verbatim>\<open>config\<close> and \<^verbatim>\<open>version\<close>, and nothing else.\<close>

definition setup_lora ::
  "(byte list \<Rightarrow> error + Config) \<Rightarrow> (Config \<Rightarrow> error + Config) \<Rightarrow> LoRaE32 \<Rightarrow>
   unit outcome \<times> LoRaE32" where
  "setup_lora cfrom cassert s =
     (case readParameters cfrom cassert (setMode SLEEP s) of
        (Pending, s1) \<Rightarrow> (Pending, s1)
      | (Thrown e, s1) \<Rightarrow> (Thrown e, s1)
      | (Returned c, s1) \<Rightarrow>
          (case readVersion (s1\<lparr>config := Some c\<rparr>) of
             (Pending, s2) \<Rightarrow> (Pending, s2)
           | (Thrown e, s2) \<Rightarrow> (Thrown e, s2)
           | (Returned v, s2) \<Rightarrow> (Returned (), s2\<lparr>version := Some v\<rparr>)))"

definition getVersion :: "LoRaE32 \<Rightarrow> error + Version option" where
  "getVersion s = (case assertReady s of Some e \<Rightarrow> Inl e | None \<Rightarrow> Inr (version s))"

definition getMode :: "LoRaE32 \<Rightarrow> error + Mode" where
  "getMode s = (case assertReady s of Some e \<Rightarrow> Inl e | None \<Rightarrow> Inr (mode s))"

definition close :: "LoRaE32 \<Rightarrow> LoRaE32" where
  "close s = (case auxWatcherId s of None \<Rightarrow> s | Some i \<Rightarrow> effect (ClearWatch i) s)"

definition addListener :: "string \<Rightarrow> LoRaE32 \<Rightarrow> LoRaE32" where
  "addListener eventName s = effect (AddListener eventName) s"

text \<open>\<^verbatim>\<open>send\<close> and \<^verbatim>\<open>write\<close> (here \<open>write_link\<close>) hand their argument to the data-link layer.\<close>

definition send :: "byte list \<Rightarrow> LoRaE32 \<Rightarrow> (error + unit) \<times> LoRaE32" where
  "send data s =
     (if mode s = SLEEP then (Inl IllegalOperationError, s)
      else (Inr (), effect (LinkSend data) s))"

definition write_link :: "byte list \<Rightarrow> LoRaE32 \<Rightarrow> LoRaE32" where
  "write_link data s = effect (LinkWrite data) s"


text \<open>What a trace wrote to the transport, and what it handed to the data-link layer.\<close>

fun uart_writes :: "effect list \<Rightarrow> byte list list" where
  "uart_writes [] = []"
| "uart_writes (UartWrite bs # es) = bs # uart_writes es"
| "uart_writes (e # es) = uart_writes es"

fun link_sends :: "effect list \<Rightarrow> byte list list" where
  "link_sends [] = []"
| "link_sends (LinkSend bs # es) = bs # link_sends es"
| "link_sends (e # es) = link_sends es"

subsection \<open>The drain of the broadcast layer\<close>

text \<open>
  The constructor of \<^verbatim>\<open>Drain\<close> puts one listener on the connection's \<^verbatim>\<open>'message'\<close> event
  and nothing in the class removes it. \<^verbatim>\<open>BroadcastPacket.from\<close> (of \<^verbatim>\<open>packet.js\<close>) is the
  parameter \<open>pfrom\<close>. The \<^verbatim>\<open>emit\<close> of \<^verbatim>\<open>'message'\<close> is inside the \<^verbatim>\<open>try\<close>, so an exception
  of the drain's own message listeners is caught too: \<open>listeners\<close> says what they throw.
\<close>

datatype 'p drain_event = DrainMessage 'p | DrainError error

record 'p Drain =
  emitted :: "'p drain_event list"
  subscribed :: bool

definition Drain_new :: "'p Drain" where
  "Drain_new = \<lparr>emitted = [], subscribed = True\<rparr>"

definition drain_emit :: "'p drain_event \<Rightarrow> 'p Drain \<Rightarrow> 'p Drain" where
  "drain_emit ev d = d\<lparr>emitted := emitted d @ [ev]\<rparr>"

definition drain_listener ::
  "(byte list \<Rightarrow> error + 'p) \<Rightarrow> ('p \<Rightarrow> error option) \<Rightarrow> byte list \<Rightarrow> 'p Drain \<Rightarrow> 'p Drain" where
  "drain_listener pfrom listeners msg d =
     (case pfrom msg of
        Inl e \<Rightarrow> drain_emit (DrainError e) d
      | Inr p \<Rightarrow>
          (case listeners p of
             None \<Rightarrow> drain_emit (DrainMessage p) d
           | Some e \<Rightarrow> drain_emit (DrainError e) (drain_emit (DrainMessage p) d)))"

text \<open>One \<^verbatim>\<open>'message'\<close> of the connection, and a sequence of them.\<close>

definition connection_message ::
  "(byte list \<Rightarrow> error + 'p) \<Rightarrow> ('p \<Rightarrow> error option) \<Rightarrow> byte list \<Rightarrow> 'p Drain \<Rightarrow> 'p Drain" where
  "connection_message pfrom listeners msg d =
     (if subscribed d then drain_listener pfrom listeners msg d else d)"

fun drain_run ::
  "(byte list \<Rightarrow> error + 'p) \<Rightarrow> ('p \<Rightarrow> error option) \<Rightarrow> byte list list \<Rightarrow> 'p Drain \<Rightarrow> 'p Drain" where
  "drain_run pfrom listeners [] d = d"
| "drain_run pfrom listeners (m # ms) d =
     drain_run pfrom listeners ms (connection_message pfrom listeners m d)"

text \<open>The events one frame gives rise to.\<close>

definition frame_events ::
  "(byte list \<Rightarrow> error + 'p) \<Rightarrow> ('p \<Rightarrow> error option) \<Rightarrow> byte list \<Rightarrow> 'p drain_event list" where
  "frame_events pfrom listeners msg =
     (case pfrom msg of
        Inl e \<Rightarrow> [DrainError e]
      | Inr p \<Rightarrow>
          (case listeners p of
             None \<Rightarrow> [DrainMessage p]
           | Some e \<Rightarrow> [DrainMessage p, DrainError e]))"

section \<open>Properties\<close>

subsection \<open>Facts about the receive primitive\<close>

lemma on_data_fit_more:
  assumes "listening r" "length (buf r) = n" "cursor r + length c < n"
  shows "on_data n c r = r\<lparr>buf := take (cursor r) (buf r) @ c @ drop (cursor r + length c) (buf r),
                            cursor := cursor r + length c\<rparr>"
  using assms by (simp add: on_data_def handler_def typed_set_def Let_def)

lemma on_data_fit_done:
  assumes "listening r" "length (buf r) = n" "cursor r + length c = n"
  shows "on_data n c r = r\<lparr>buf := take (cursor r) (buf r) @ c,
                            cursor := n, listening := False,
                            resolved := Some (take (cursor r) (buf r) @ c)\<rparr>"
  using assms by (simp add: on_data_def handler_def typed_set_def Let_def)

lemma on_data_overflow:
  assumes "length (buf r) = n" "cursor r + length c > n"
  shows "on_data n c r = r"
  using assms by (simp add: on_data_def handler_def typed_set_def Let_def)


lemma await_exact:
  assumes "listening r" "resolved r = None" "length (buf r) = n"
    "cs \<noteq> []" "cursor r + length (concat cs) = n"
  shows "\<exists>rest. await n r (cs @ later) =
           (r\<lparr>buf := take (cursor r) (buf r) @ concat cs, cursor := n, listening := False,
              resolved := Some (take (cursor r) (buf r) @ concat cs)\<rparr>, rest @ later)
           \<and> concat rest = []"
  using assms
proof (induction cs arbitrary: r)
  case Nil
  then show ?case by simp
next
  case (Cons c cs)
  show ?case
  proof (cases "cursor r + length c = n")
    case True
    have "length (concat cs) = 0"
      using True Cons.prems(5) unfolding concat.simps length_append by arith
    then have e: "concat cs = []" by (rule length_0_conv[THEN iffD1])
    show ?thesis
      using on_data_fit_done[OF Cons.prems(1) Cons.prems(3) True] e
      by (simp add: Let_def)
  next
    case False
    then have lt: "cursor r + length c < n" using Cons.prems(5) by simp
    let ?r = "on_data n c r"
    have eq: "?r = r\<lparr>buf := take (cursor r) (buf r) @ c @ drop (cursor r + length c) (buf r),
                            cursor := cursor r + length c\<rparr>"
      using on_data_fit_more[OF Cons.prems(1) Cons.prems(3) lt] .
    have ne: "cs \<noteq> []" using lt Cons.prems(5) by auto
    have a: "listening ?r" "resolved ?r = None" "length (buf ?r) = n"
        "cursor ?r + length (concat cs) = n"
      using Cons.prems lt by (simp_all add: eq)
    have tk: "take (cursor ?r) (buf ?r) = take (cursor r) (buf r) @ c"
      using lt Cons.prems(3) by (simp add: eq)
    from Cons.IH[OF a(1,2,3) ne a(4)] obtain rest where
      r: "await n ?r (cs @ later) =
           (?r\<lparr>buf := take (cursor ?r) (buf ?r) @ concat cs, cursor := n, listening := False,
              resolved := Some (take (cursor ?r) (buf ?r) @ concat cs)\<rparr>, rest @ later)"
      and c: "concat rest = []" by blast
    show ?thesis
      using r c a(2) by (simp add: Let_def tk)
  qed
qed


subsection \<open>The receive primitive inside the controller\<close>


lemma receive_snd: "snd (receive n s) = s\<lparr>rx := snd (await n (receive_new n) (rx s))\<rparr>"
  by (simp add: receive_def split: prod.splits)


lemma receive_exact:
  assumes "rx s = cs @ later" "cs \<noteq> []" "length (concat cs) = n"
  shows "\<exists>rest. receive n s = (Some (concat cs), s\<lparr>rx := rest @ later\<rparr>) \<and> concat rest = []"
proof -
  have "\<exists>rest. await n (receive_new n) (cs @ later) =
           ((receive_new n)\<lparr>buf := take (cursor (receive_new n)) (buf (receive_new n)) @ concat cs,
              cursor := n, listening := False,
              resolved := Some (take (cursor (receive_new n)) (buf (receive_new n)) @ concat cs)\<rparr>,
            rest @ later)
           \<and> concat rest = []"
    by (rule await_exact) (use assms in \<open>simp_all add: receive_new_def\<close>)
  then obtain rest where
    a: "await n (receive_new n) (cs @ later) =
           ((receive_new n)\<lparr>buf := take (cursor (receive_new n)) (buf (receive_new n)) @ concat cs,
              cursor := n, listening := False,
              resolved := Some (take (cursor (receive_new n)) (buf (receive_new n)) @ concat cs)\<rparr>,
            rest @ later)"
    and c: "concat rest = []" by blast
  have "receive n s = (Some (concat cs), s\<lparr>rx := rest @ later\<rparr>)"
    using a assms(1) by (simp add: receive_def receive_new_def)
  with c show ?thesis by blast
qed

lemma receive_all:
  assumes "rx s \<noteq> []" "length (concat (rx s)) = n"
  shows "\<exists>rest. receive n s = (Some (concat (rx s)), s\<lparr>rx := rest\<rparr>) \<and> concat rest = []"
  using receive_exact[of s "rx s" "[]" n] assms by simp

subsection \<open>Effects, traces and frame facts\<close>

lemmas ctl_defs = effect_def digitalWrite_def emit_def uart_write_def


lemma link_sends_append: "link_sends (xs @ ys) = link_sends xs @ link_sends ys"
  by (induction xs rule: link_sends.induct) simp_all

lemma receive_mode: "mode (snd (receive n s)) = mode s"
  by (simp add: receive_snd)


lemma readParameters_mode: "mode (snd (readParameters cfrom cassert s)) = mode s"
  using receive_mode[of 6 "uart_write PACKET_GET_CONFIG s"]
  by (auto simp: readParameters_def assertSleepMode_def ctl_defs
      split: option.splits prod.splits sum.splits)

lemma readVersion_mode: "mode (snd (readVersion s)) = mode s"
  using receive_mode[of 4 "uart_write [0xC3, 0xC3, 0xC3] s"]
  by (auto simp: readVersion_def assertSleepMode_def ctl_defs
      split: option.splits prod.splits sum.splits)

lemma setConfig_mode: "mode (snd (setConfig cfrom c s)) = mode s"
  using receive_mode[of 6 "uart_write (setConfig_data c) s"]
  by (auto simp: setConfig_def assertSleepMode_def ctl_defs
      split: option.splits prod.splits sum.splits)

lemma resetConfig_mode: "mode (snd (resetConfig cfrom cassert s)) = mode s"
  using readParameters_mode[of cfrom cassert "effect (Wait 50) (uart_write [0xC4, 0xC4, 0xC4] s)"]
  by (auto simp: resetConfig_def assertSleepMode_def ctl_defs
      split: option.splits prod.splits outcome.splits)

lemma readParameters_isSetup: "isSetup (snd (readParameters cfrom cassert t)) = isSetup t"
  by (auto simp: readParameters_def assertSleepMode_def receive_snd ctl_defs prod_eq_iff
      split: option.splits prod.splits sum.splits)

lemma readVersion_isSetup: "isSetup (snd (readVersion t)) = isSetup t"
  by (auto simp: readVersion_def assertSleepMode_def receive_snd ctl_defs prod_eq_iff
      split: option.splits prod.splits sum.splits)

lemma setup_frame:
  "isSetup (snd (setup_lora cfrom cassert s)) = isSetup s
   \<and> mode (snd (setup_lora cfrom cassert s)) = SLEEP"
proof -
  have sm: "isSetup (setMode SLEEP s) = isSetup s" "mode (setMode SLEEP s) = SLEEP"
    by (simp_all add: setMode_def setMode_pins_def ctl_defs)
  obtain o1 s1 where r1: "readParameters cfrom cassert (setMode SLEEP s) = (o1, s1)"
    by force
  have i1: "isSetup s1 = isSetup s" "mode s1 = SLEEP"
    using readParameters_isSetup[of cfrom cassert "setMode SLEEP s"]
      readParameters_mode[of cfrom cassert "setMode SLEEP s"] sm r1 by simp_all
  show ?thesis
  proof (cases o1)
    case (Returned c)
    obtain o2 s2 where r2: "readVersion (s1\<lparr>config := Some c\<rparr>) = (o2, s2)"
      by force
    have i2: "isSetup s2 = isSetup s" "mode s2 = SLEEP"
      using readVersion_isSetup[of "s1\<lparr>config := Some c\<rparr>"]
        readVersion_mode[of "s1\<lparr>config := Some c\<rparr>"] r2 i1 by simp_all
    show ?thesis using r1 Returned r2 i2 by (cases o2) (simp_all add: setup_lora_def)
  qed (use r1 i1 in \<open>simp_all add: setup_lora_def\<close>)
qed




subsection \<open>The register operations in sleep mode\<close>

















subsection \<open>The drain\<close>

lemma drain_run_subscribed:
  "subscribed (drain_run pfrom ls ms d) = subscribed d"
  by (induction ms arbitrary: d)
     (auto simp: connection_message_def drain_listener_def drain_emit_def
           split: sum.splits option.splits)

lemma drain_run_emitted:
  "subscribed d \<Longrightarrow>
   emitted (drain_run pfrom ls ms d) = emitted d @ concat (map (frame_events pfrom ls) ms)"
proof (induction ms arbitrary: d)
  case Nil
  then show ?case by simp
next
  case (Cons m ms)
  let ?d = "connection_message pfrom ls m d"
  have s: "subscribed ?d"
    using Cons.prems
    by (auto simp: connection_message_def drain_listener_def drain_emit_def
             split: sum.splits option.splits)
  have e: "emitted ?d = emitted d @ frame_events pfrom ls m"
    using Cons.prems
    by (auto simp: connection_message_def drain_listener_def drain_emit_def frame_events_def
             split: sum.splits option.splits)
  show ?case using Cons.IH[OF s] e by simp
qed

lemma drain_run_append:
  "drain_run pfrom ls (xs @ ys) d = drain_run pfrom ls ys (drain_run pfrom ls xs d)"
  by (induction xs arbitrary: d) simp_all

section \<open>The claims\<close>

text \<open>
  C1: a call of \<^verbatim>\<open>getConfig\<close> or \<^verbatim>\<open>getVersion\<close> before \<^verbatim>\<open>setup\<close> has completed should
  fail with \<open>NotReady\<close>. On a controller fresh from its constructor it does not:
  \<^verbatim>\<open>isSetup\<close> holds \<^verbatim>\<open>undefined\<close>, the test \<^verbatim>\<open>this.isSetup == false\<close> of \<^verbatim>\<open>assertReady\<close> is
  false, \<^verbatim>\<open>getConfig\<close> returns a fresh \<^verbatim>\<open>Config\<close> and \<^verbatim>\<open>getVersion\<close> returns \<^verbatim>\<open>null\<close>.
  \<^verbatim>\<open>setup\<close> never assigns \<^verbatim>\<open>isSetup\<close> either.
\<close>

theorem accessors_before_setup:
  "isSetup (LoRaE32_new a chunks) = JUndefined
   \<and> assertReady (LoRaE32_new a chunks) = None
   \<and> getConfig cnew (LoRaE32_new a chunks) = Inr cnew
   \<and> getVersion (LoRaE32_new a chunks) = Inr None
   \<and> isSetup (snd (setup_lora cfrom cassert s)) = isSetup s"
  by (simp add: assertReady_def getConfig_def getVersion_def LoRaE32_new_def setup_frame)

text \<open>
  C2: each sleep-gated register operation (\<^verbatim>\<open>readParameters\<close>, \<^verbatim>\<open>setConfig\<close>,
  \<^verbatim>\<open>resetConfig\<close>, \<^verbatim>\<open>readVersion\<close>), called while the recorded mode is not \<open>SLEEP\<close>,
  throws \<^verbatim>\<open>IllegalOperationError\<close> and leaves the controller as it was: nothing is written
  to the transport.
\<close>

theorem sleep_gate:
  assumes "mode s \<noteq> SLEEP"
  shows "readParameters cfrom cassert s = (Thrown IllegalOperationError, s)
     \<and> setConfig cfrom c s = (Thrown IllegalOperationError, s)
     \<and> resetConfig cfrom cassert s = (Thrown IllegalOperationError, s)
     \<and> readVersion s = (Thrown IllegalOperationError, s)
     \<and> uart_writes (trace (snd (readParameters cfrom cassert s))) = uart_writes (trace s)
     \<and> uart_writes (trace (snd (setConfig cfrom c s))) = uart_writes (trace s)
     \<and> uart_writes (trace (snd (resetConfig cfrom cassert s))) = uart_writes (trace s)
     \<and> uart_writes (trace (snd (readVersion s))) = uart_writes (trace s)"
  using assms
  by (simp add: readParameters_def setConfig_def resetConfig_def readVersion_def
      assertSleepMode_def)

theorem sleep_gate_witness:
  "mode (setMode NORMAL (LoRaE32_new LOW [])) \<noteq> SLEEP
   \<and> readParameters (\<lambda>bs. Inl Malformed) Inr (setMode NORMAL (LoRaE32_new LOW []))
       = (Thrown IllegalOperationError, setMode NORMAL (LoRaE32_new LOW []))
   \<and> readVersion (setMode NORMAL (LoRaE32_new LOW []))
       = (Thrown IllegalOperationError, setMode NORMAL (LoRaE32_new LOW []))
   \<and> uart_writes (trace (snd (readVersion (setMode NORMAL (LoRaE32_new LOW []))))) = []"
  using sleep_gate[where s = "setMode NORMAL (LoRaE32_new LOW [])"
      and cfrom = "\<lambda>bs. Inl Malformed" and cassert = Inr]
  by (simp add: LoRaE32_new_def setMode_def setMode_pins_def ctl_defs)

text \<open>
  C3: the receive primitive should complete exactly when the cumulative byte count of the
  notifications reaches the target length. With the target 6 and the chunks
  \<open>[1, 2, 3, 4]\<close> and \<open>[5, 6, 7, 8]\<close>, eight bytes have arrived, yet the second call of the
  handler throws \<open>RangeError\<close> at \<^verbatim>\<open>buf.set\<close>, the cursor stays at 4, the promise is not
  resolved and the listener stays attached. (For chunks that fill the buffer exactly the
  primitive completes, and below the target it stays pending: \<open>await_exact\<close> and
  \<open>await_short\<close>.)
\<close>

theorem receive_overshoot_stalls:
  "handler 6 [5, 6, 7, 8] (deliver 6 [[1, 2, 3, 4]] (receive_new 6)) = Inl RangeError
   \<and> resolved (deliver 6 [[1, 2, 3, 4], [5, 6, 7, 8]] (receive_new 6)) = None
   \<and> listening (deliver 6 [[1, 2, 3, 4], [5, 6, 7, 8]] (receive_new 6))
   \<and> cursor (deliver 6 [[1, 2, 3, 4], [5, 6, 7, 8]] (receive_new 6)) = 4
   \<and> fst (receive 6 (LoRaE32_new LOW [[1, 2, 3, 4], [5, 6, 7, 8]])) = None"
  by (simp add: receive_def LoRaE32_new_def receive_new_def on_data_def handler_def
        typed_set_def Let_def)






text \<open>
  C6: for every mode, \<^verbatim>\<open>setMode\<close> writes the fixed pattern to the two output lines,
  NORMAL = (0, 0), WAKE_UP = (1, 0), POWER_SAVING = (0, 1), SLEEP = (1, 1); after both
  writes the recorded mode is still the old one; then the new mode is recorded and the
  \<^verbatim>\<open>'mode'\<close> event is emitted. \<^verbatim>\<open>setMode\<close> has no failure path: it always ends in a
  state.
\<close>

theorem setMode_pattern:
  "map_prod level_bit level_bit (mode_levels NORMAL) = (0, 0)
   \<and> map_prod level_bit level_bit (mode_levels WAKE_UP) = (1, 0)
   \<and> map_prod level_bit level_bit (mode_levels POWER_SAVING) = (0, 1)
   \<and> map_prod level_bit level_bit (mode_levels SLEEP) = (1, 1)
   \<and> trace (setMode_pins md s) =
        trace s @ [PinWrite M0 (fst (mode_levels md)), PinWrite M1 (snd (mode_levels md))]
   \<and> mode (setMode_pins md s) = mode s
   \<and> setMode md s = emit (ModeEvent md) ((setMode_pins md s)\<lparr>mode := md\<rparr>)
   \<and> mode (setMode md s) = md
   \<and> trace (setMode md s) =
        trace s @ [PinWrite M0 (fst (mode_levels md)), PinWrite M1 (snd (mode_levels md)),
                   Emit (ModeEvent md)]"
  by (simp add: setMode_def setMode_pins_def ctl_defs Let_def)




text \<open>
  C8: for every sequence of frames the drain handles each frame in turn and stays
  subscribed; a frame that fails to parse gives exactly one error event and no message
  event, and a well-formed frame after it is still parsed and emitted as a message.
\<close>

theorem drain_survives_malformed:
  assumes "pfrom bad = Inl e" "pfrom good = Inr p" "ls p = None"
  shows "emitted (drain_run pfrom ls frames Drain_new) = concat (map (frame_events pfrom ls) frames)
     \<and> subscribed (drain_run pfrom ls frames Drain_new)
     \<and> emitted (drain_run pfrom ls [bad] (drain_run pfrom ls frames Drain_new))
         = emitted (drain_run pfrom ls frames Drain_new) @ [DrainError e]
     \<and> subscribed (drain_run pfrom ls (frames @ [bad]) Drain_new)
     \<and> emitted (drain_run pfrom ls (frames @ [bad, good] @ later) Drain_new)
         = emitted (drain_run pfrom ls frames Drain_new) @ [DrainError e, DrainMessage p]
           @ concat (map (frame_events pfrom ls) later)"
  using assms
  by (simp add: drain_run_emitted drain_run_subscribed drain_run_append Drain_new_def
      frame_events_def connection_message_def drain_listener_def drain_emit_def)

theorem drain_survives_malformed_witness:
  "(\<lambda>bs. if length bs < 2 then Inl Malformed else Inr (tl bs)) [7] = Inl Malformed
   \<and> (\<lambda>bs. if length bs < 2 then Inl Malformed else Inr (tl bs)) [1, 2, 3] = Inr [2, 3]
   \<and> (\<lambda>p. None) [2, 3 :: byte] = (None :: error option)
   \<and> emitted (drain_run (\<lambda>bs. if length bs < 2 then Inl Malformed else Inr (tl bs))
         (\<lambda>p. None) ([[9, 9]] @ [[7], [1, 2, 3]] @ []) Drain_new)
       = [DrainMessage [9], DrainError Malformed, DrainMessage [2, 3]]
   \<and> subscribed (drain_run (\<lambda>bs. if length bs < 2 then Inl Malformed else Inr (tl bs))
         (\<lambda>p. None) ([[9, 9]] @ [[7]]) Drain_new)"
  using drain_survives_malformed[where pfrom = "\<lambda>bs. if length bs < 2 then Inl Malformed else Inr (tl bs)"
      and ls = "\<lambda>p. None" and bad = "[7]" and good = "[1, 2, 3]" and e = Malformed
      and p = "[2, 3]" and frames = "[[9, 9]]" and later = "[]"]
  by (simp add: Drain_new_def connection_message_def drain_listener_def drain_emit_def)

text \<open>
  C9: the recorded mode is \<open>SLEEP\<close> at construction, and every operation of the
  controller that returns a state, other than \<^verbatim>\<open>setMode\<close>, leaves the recorded mode as it
  was; \<^verbatim>\<open>setup\<close>, which calls \<^verbatim>\<open>setMode(Mode.SLEEP)\<close>, ends in \<open>SLEEP\<close>. (The accessors
  \<^verbatim>\<open>ready\<close>, \<^verbatim>\<open>getConfig\<close>, \<^verbatim>\<open>getAddress\<close>, \<^verbatim>\<open>getVersion\<close> and \<^verbatim>\<open>getMode\<close> and the two
  assertions return a value and no state.)
\<close>

theorem mode_frame:
  "mode (LoRaE32_new a chunks) = SLEEP
   \<and> mode (snd (receive n s)) = mode s
   \<and> mode (snd (waitQueue s)) = mode s
   \<and> mode (snd (readParameters cfrom cassert s)) = mode s
   \<and> mode (snd (setConfig cfrom c s)) = mode s
   \<and> mode (snd (resetConfig cfrom cassert s)) = mode s
   \<and> mode (snd (readVersion s)) = mode s
   \<and> mode (snd (setup_lora cfrom cassert s)) = SLEEP
   \<and> mode (close s) = mode s
   \<and> mode (addListener eventName s) = mode s
   \<and> mode (snd (send data s)) = mode s
   \<and> mode (write_link data s) = mode s
   \<and> mode (on_link_message data s) = mode s
   \<and> mode (on_link_error e s) = mode s
   \<and> mode (on_link_dropped e s) = mode s"
  by (simp add: readParameters_mode setConfig_mode resetConfig_mode readVersion_mode
      setup_frame receive_mode LoRaE32_new_def waitQueue_def close_def addListener_def send_def
      write_link_def on_link_message_def on_link_error_def on_link_dropped_def ctl_defs
      split: option.splits)

text \<open>
  C10: \<^verbatim>\<open>send\<close> in sleep mode throws \<^verbatim>\<open>IllegalOperationError\<close> and hands nothing to the
  data-link layer; in every other mode it hands the payload, unchanged, to the data-link
  layer's \<^verbatim>\<open>send\<close>.
\<close>

theorem send_gate:
  "(mode s = SLEEP \<longrightarrow> send data s = (Inl IllegalOperationError, s))
   \<and> (mode s \<noteq> SLEEP \<longrightarrow>
        fst (send data s) = Inr ()
        \<and> snd (send data s) = s\<lparr>trace := trace s @ [LinkSend data]\<rparr>
        \<and> link_sends (trace (snd (send data s))) = link_sends (trace s) @ [data])"
  by (simp add: send_def ctl_defs link_sends_append)

theorem send_gate_witness:
  "mode (LoRaE32_new LOW []) = SLEEP
   \<and> send [1, 2, 3] (LoRaE32_new LOW []) = (Inl IllegalOperationError, LoRaE32_new LOW [])
   \<and> link_sends (trace (snd (send [1, 2, 3] (LoRaE32_new LOW [])))) = []
   \<and> mode (setMode NORMAL (LoRaE32_new LOW [])) \<noteq> SLEEP
   \<and> fst (send [1, 2, 3] (setMode NORMAL (LoRaE32_new LOW []))) = Inr ()
   \<and> link_sends (trace (snd (send [1, 2, 3] (setMode NORMAL (LoRaE32_new LOW []))))) = [[1, 2, 3]]"
  using send_gate[of "LoRaE32_new LOW []" "[1, 2, 3]"]
    send_gate[of "setMode NORMAL (LoRaE32_new LOW [])" "[1, 2, 3]"]
  by (simp add: LoRaE32_new_def setMode_def setMode_pins_def ctl_defs)

end
